theory Spec2Isabelle
  imports Complex_Main "HOL-Library.Word" "HOL-Library.Sublist"
begin

section \<open>The chat widget controller of static/app.js\<close>

text \<open>
  The script binds five elements of the page (the form, the input field, the message
  list, the send button, the typing indicator) and drives them from three handlers.
  The model keeps what the script reads and writes of them in one record, and turns
  every handler, and every resumption of the asynchronous \<^verbatim>\<open>sendMessage\<close> after
  an \<^verbatim>\<open>await\<close>, into a function from page to page.
\<close>

subsection \<open>Strings\<close>

text \<open>
  A JavaScript string is a sequence of UTF-16 code units. The literals of the script
  are ASCII; \<open>lit\<close> embeds them.
\<close>

type_synonym jsstring = "16 word list"

definition lit :: "string \<Rightarrow> jsstring" where
  "lit cs = map (\<lambda>c. of_nat (of_char c)) cs"

text \<open>
  \<^verbatim>\<open>String.prototype.trim\<close> strips WhiteSpace and LineTerminator code points from
  both ends: TAB, VT, FF, ZWNBSP, the space separators of Unicode (category Zs) and
  LF, CR, LS, PS. All of them are single code units.
\<close>

definition white_space :: "16 word list" where
  "white_space =
     [0x0009, 0x000A, 0x000B, 0x000C, 0x000D, 0x0020, 0x00A0, 0x1680,
      0x2000, 0x2001, 0x2002, 0x2003, 0x2004, 0x2005, 0x2006, 0x2007,
      0x2008, 0x2009, 0x200A, 0x2028, 0x2029, 0x202F, 0x205F, 0x3000, 0xFEFF]"

definition is_white_space :: "16 word \<Rightarrow> bool" where
  "is_white_space c = (c \<in> set white_space)"

definition trim :: "jsstring \<Rightarrow> jsstring" where
  "trim s = rev (dropWhile is_white_space (rev (dropWhile is_white_space s)))"

text \<open>
  The template literal of line 52 converts \<^verbatim>\<open>resp.status\<close>, a non-negative
  integer, to its decimal digits.
\<close>

definition digit :: "nat \<Rightarrow> 16 word" where
  "digit d = of_nat (48 + d)"

fun dec :: "nat \<Rightarrow> jsstring" where
  "dec n = (if n < 10 then [digit n] else dec (n div 10) @ [digit (n mod 10)])"

declare dec.simps [simp del]

subsection \<open>Values\<close>

text \<open>
  The values the script handles: what \<^verbatim>\<open>resp.json()\<close> can deliver, and
  \<^verbatim>\<open>undefined\<close> for a property that is not there. A finite number is a rational
  (both zeros are the rational zero, and both are falsy); a literal too large for a
  double, such as \<^verbatim>\<open>1e400\<close>, parses to an infinity, \<open>Infinity True\<close> being the
  negative one; an object is the list of its own properties, with distinct keys.
\<close>

datatype jsval =
    Undefined
  | Null
  | Bool bool
  | Num rat
  | Infinity bool
  | Str jsstring
  | Arr "jsval list"
  | Obj "(jsstring \<times> jsval) list"

datatype exn = TypeError | SyntaxError | AbortError

fun truthy :: "jsval \<Rightarrow> bool" where
  "truthy Undefined = False"
| "truthy Null = False"
| "truthy (Bool b) = b"
| "truthy (Num r) = (r \<noteq> 0)"
| "truthy (Infinity negative) = True"
| "truthy (Str s) = (s \<noteq> [])"
| "truthy (Arr vs) = True"
| "truthy (Obj kvs) = True"

text \<open>
  Reading one of the properties \<^verbatim>\<open>response\<close>, \<^verbatim>\<open>intent\<close>,
  \<^verbatim>\<open>confidence\<close>: a TypeError on \<^verbatim>\<open>null\<close> and \<^verbatim>\<open>undefined\<close>, the own
  property of an object when it has one, and \<^verbatim>\<open>undefined\<close> otherwise (no
  prototype defines any of the three names).
\<close>

fun get_prop :: "jsval \<Rightarrow> jsstring \<Rightarrow> exn + jsval" where
  "get_prop Undefined k = Inl TypeError"
| "get_prop Null k = Inl TypeError"
| "get_prop (Obj kvs) k = (case map_of kvs k of None \<Rightarrow> Inr Undefined | Some v \<Rightarrow> Inr v)"
| "get_prop v k = Inr Undefined"

text \<open>\<^verbatim>\<open>a || b\<close> on values already computed.\<close>

definition or_else :: "jsval \<Rightarrow> jsval \<Rightarrow> jsval" where
  "or_else a b = (if truthy a then a else b)"

subsection \<open>The page\<close>

text \<open>
  An element as the script builds it: its class, its text when the script sets one,
  and its children. \<open>textContent\<close> holds the value that was assigned. The page
  shows the conversion of that value to a string: for a string the string itself, for
  a number its digits, for an object what its \<^verbatim>\<open>toString\<close> gives. The model does not
  follow that conversion, so it is exact where the text assigned is a string, and the
  properties below that say what text a message shows speak of strings only.
\<close>

datatype element = Element (className: jsstring) (textContent: "jsval option") (children: "element list")

record meta =
  intent :: jsval
  confidence :: jsval

datatype console_entry = Console_log "jsval list" | Console_error jsstring exn

text \<open>
  A call of \<^verbatim>\<open>fetch\<close>. The body is the text \<^verbatim>\<open>JSON.stringify\<close> makes of a
  value; \<open>JSON_stringify\<close> marks that text by the value it was made from.
\<close>

datatype body_text = JSON_stringify jsval

record request =
  url :: jsstring
  method_of :: jsstring
  headers :: "(jsstring \<times> jsstring) list"
  body :: body_text

text \<open>
  A \<^verbatim>\<open>Response\<close>: the script reads \<^verbatim>\<open>status\<close> and \<^verbatim>\<open>ok\<close>, and the
  platform defines \<^verbatim>\<open>ok\<close> as a status from 200 to 299.
\<close>

record response =
  status :: nat

definition ok :: "response \<Rightarrow> bool" where
  "ok resp = (200 \<le> status resp \<and> status resp \<le> 299)"

text \<open>
  One call of \<^verbatim>\<open>sendMessage\<close> is a promise: suspended at the first or at the
  second \<^verbatim>\<open>await\<close>, fulfilled, or rejected with an exception.
\<close>

datatype phase = AwaitFetch | AwaitJson | Fulfilled | Rejected exn

record page =
  messages :: "element list"
  scrolledToEnd :: bool
  input_value :: jsstring
  input_focused :: bool
  typing_display :: jsstring
  typing_aria_hidden :: "jsstring option"
  console :: "console_entry list"
  requests :: "request list"
  calls :: "nat \<rightharpoonup> phase"

subsection \<open>appendMessage and showTyping\<close>

definition sender_class :: "bool \<Rightarrow> jsstring" where
  "sender_class isBot = (if isBot then lit ''bot'' else lit ''user'')"

text \<open>Lines 10 to 26.\<close>

definition appendMessage :: "jsval \<Rightarrow> bool \<Rightarrow> meta option \<Rightarrow> page \<Rightarrow> page" where
  "appendMessage text isBot m p =
     (let bubble = Element (lit ''bubble '' @ sender_class isBot) (Some text) [];
          wrap = Element (lit ''message '' @ sender_class isBot) None [bubble];
          p1 = p\<lparr>messages := messages p @ [wrap]\<rparr>;
          p2 = p1\<lparr>scrolledToEnd := True\<rparr>
      in case m of
           None \<Rightarrow> p2
         | Some mt \<Rightarrow>
             p2\<lparr>console := console p2 @
                   [Console_log [Str (lit ''Intent:''), intent mt,
                                 Str (lit ''Confidence:''), confidence mt]]\<rparr>)"

text \<open>Lines 29 to 32.\<close>

definition showTyping :: "bool \<Rightarrow> page \<Rightarrow> page" where
  "showTyping show p =
     p\<lparr>typing_display := (if show then lit ''block'' else lit ''none''),
       typing_aria_hidden := Some (if \<not> show then lit ''true'' else lit ''false'')\<rparr>"

subsection \<open>sendMessage\<close>

text \<open>
  The \<^verbatim>\<open>try\<close> statement of lines 44 to 65 runs in up to three pieces, cut at the
  two \<^verbatim>\<open>await\<close>s. A piece ends by suspending at the next \<^verbatim>\<open>await\<close>, by
  leaving the \<^verbatim>\<open>try\<close> block (at its end or by \<^verbatim>\<open>return\<close>), or by throwing.
\<close>

datatype flow = Awaits phase page | Leaves page | Throws exn page

definition error_meta :: meta where
  "error_meta = \<lparr>intent = Str (lit ''error''), confidence = Num 0\<rparr>"

definition network_error_text :: jsstring where
  "network_error_text = lit ''Network error: failed to reach the server.''"

definition fallback_text :: jsstring where
  "fallback_text = lit ''I'm sorry, I couldn't process that.''"

definition server_error_text :: "nat \<Rightarrow> jsstring" where
  "server_error_text st = lit ''Server error ('' @ dec st @ lit '')''"

text \<open>Lines 60 to 62, the \<^verbatim>\<open>catch\<close> block.\<close>

definition catch_block :: "exn \<Rightarrow> page \<Rightarrow> page" where
  "catch_block err p =
     (let p1 = appendMessage (Str network_error_text) True (Some error_meta) p
      in p1\<lparr>console := console p1 @ [Console_error (lit ''Chat send error:'') err]\<rparr>)"

text \<open>Lines 63 to 65, the \<^verbatim>\<open>finally\<close> block.\<close>

definition finally_block :: "page \<Rightarrow> page" where
  "finally_block p = showTyping False p"

text \<open>
  What a piece of the \<^verbatim>\<open>try\<close> block leaves to the call \<open>i\<close>: a suspended call
  waits; a block left normally runs \<^verbatim>\<open>finally\<close> and the call returns; an
  exception runs \<^verbatim>\<open>catch\<close>, then \<^verbatim>\<open>finally\<close>, and the call returns.
\<close>

definition settle :: "nat \<Rightarrow> flow \<Rightarrow> page" where
  "settle i f =
     (case f of
        Awaits ph p \<Rightarrow> p\<lparr>calls := (calls p)(i \<mapsto> ph)\<rparr>
      | Leaves p \<Rightarrow>
          (let q = finally_block p in q\<lparr>calls := (calls q)(i \<mapsto> Fulfilled)\<rparr>)
      | Throws err p \<Rightarrow>
          (let q = finally_block (catch_block err p) in q\<lparr>calls := (calls q)(i \<mapsto> Fulfilled)\<rparr>))"

text \<open>Lines 45 to 49: the request, and the call of \<^verbatim>\<open>fetch\<close> that sends it.\<close>

definition chat_request :: "jsstring \<Rightarrow> request" where
  "chat_request v =
     \<lparr>url = lit ''/chat'',
      method_of = lit ''POST'',
      headers = [(lit ''Content-Type'', lit ''application/json'')],
      body = JSON_stringify (Obj [(lit ''message'', Str v)])\<rparr>"

definition next_call :: "page \<Rightarrow> nat" where
  "next_call p = length (requests p)"

definition fetch :: "request \<Rightarrow> page \<Rightarrow> page" where
  "fetch rq p = p\<lparr>requests := requests p @ [rq]\<rparr>"

text \<open>
  Lines 36 to 49: the call up to its first \<^verbatim>\<open>await\<close>. The new call is numbered
  by the requests issued before it.
\<close>

definition sendMessage :: "page \<Rightarrow> page" where
  "sendMessage p =
     (let v = trim (input_value p)
      in if \<not> truthy (Str v) then p
         else
           let i = next_call p;
               p1 = appendMessage (Str v) False None p;
               p2 = p1\<lparr>input_value := []\<rparr>;
               p3 = p2\<lparr>input_focused := True\<rparr>;
               p4 = showTyping True p3
           in settle i (Awaits AwaitFetch (fetch (chat_request v) p4)))"

text \<open>
  Lines 45 to 56, resumed when the promise of \<^verbatim>\<open>fetch\<close> settles: a rejection
  throws at the \<^verbatim>\<open>await\<close>; a response that is not \<^verbatim>\<open>ok\<close> is reported and the
  function returns; otherwise \<^verbatim>\<open>resp.json()\<close> is awaited.
\<close>

definition after_fetch :: "exn + response \<Rightarrow> page \<Rightarrow> flow" where
  "after_fetch r p =
     (case r of
        Inl err \<Rightarrow> Throws err p
      | Inr resp \<Rightarrow>
          if \<not> ok resp
          then Leaves (appendMessage (Str (server_error_text (status resp))) True (Some error_meta) p)
          else Awaits AwaitJson p)"

text \<open>
  Lines 57 and 58: the text and the metadata of the reply, evaluated left to right;
  a property read that throws leaves the rest unevaluated.
\<close>

definition bot_text :: "jsval \<Rightarrow> exn + jsval" where
  "bot_text data =
     (if \<not> truthy data then Inr (Str fallback_text)
      else case get_prop data (lit ''response'') of
             Inl err \<Rightarrow> Inl err
           | Inr c \<Rightarrow> if truthy c then get_prop data (lit ''response'') else Inr (Str fallback_text))"

definition reply_meta :: "jsval \<Rightarrow> exn + meta" where
  "reply_meta data =
     (case get_prop data (lit ''intent'') of
        Inl err \<Rightarrow> Inl err
      | Inr i \<Rightarrow>
          (case get_prop data (lit ''confidence'') of
             Inl err \<Rightarrow> Inl err
           | Inr c \<Rightarrow> Inr \<lparr>intent = or_else i (Str (lit ''unknown'')),
                         confidence = or_else c (Num 0)\<rparr>))"

text \<open>
  Lines 56 to 58, resumed when the promise of \<^verbatim>\<open>resp.json()\<close> settles.
\<close>

definition after_json :: "exn + jsval \<Rightarrow> page \<Rightarrow> flow" where
  "after_json r p =
     (case r of
        Inl err \<Rightarrow> Throws err p
      | Inr data \<Rightarrow>
          (case bot_text data of
             Inl err \<Rightarrow> Throws err p
           | Inr botText \<Rightarrow>
               (case reply_meta data of
                  Inl err \<Rightarrow> Throws err p
                | Inr m \<Rightarrow> Leaves (appendMessage botText True (Some m) p))))"

subsection \<open>The handlers and the events of the page\<close>

definition greeting_text :: jsstring where
  "greeting_text = lit ''Hi, I'm the Vibeathon bot! You can ask me about joining or registration, event dates and costs, collaborations, social media, GitHub, contact info, current projects, or even provide feedback.''"

definition greeting_meta :: meta where
  "greeting_meta = \<lparr>intent = Str (lit ''greeting''), confidence = Num 1\<rparr>"

text \<open>Lines 83 to 91.\<close>

definition onDOMContentLoaded :: "page \<Rightarrow> page" where
  "onDOMContentLoaded p =
     (if length (messages p) = 0
      then appendMessage (Str greeting_text) True (Some greeting_meta) p
      else p)"

text \<open>
  Lines 69 to 72 and 75 to 80. \<^verbatim>\<open>preventDefault\<close> keeps the browser from
  submitting the form; it changes none of the parts of the page kept here.
\<close>

definition onClick :: "page \<Rightarrow> page" where
  "onClick p = sendMessage p"

definition onKeydown :: "jsstring \<Rightarrow> bool \<Rightarrow> page \<Rightarrow> page" where
  "onKeydown key shiftKey p = (if key = lit ''Enter'' \<and> \<not> shiftKey then sendMessage p else p)"

text \<open>
  What can happen to the page: the document finishes loading, the user edits the
  input field, clicks the button or presses a key, and the promise a call waits for
  settles. A settlement addressed to a call that does not wait for it changes nothing.
\<close>

datatype event =
    DOMContentLoaded
  | Edit jsstring
  | Click
  | Keydown jsstring bool
  | FetchSettled nat "exn + response"
  | JsonSettled nat "exn + jsval"

definition step :: "event \<Rightarrow> page \<Rightarrow> page" where
  "step e p =
     (case e of
        DOMContentLoaded \<Rightarrow> onDOMContentLoaded p
      | Edit s \<Rightarrow> p\<lparr>input_value := s\<rparr>
      | Click \<Rightarrow> onClick p
      | Keydown key shiftKey \<Rightarrow> onKeydown key shiftKey p
      | FetchSettled i r \<Rightarrow>
          (if calls p i = Some AwaitFetch then settle i (after_fetch r p) else p)
      | JsonSettled i r \<Rightarrow>
          (if calls p i = Some AwaitJson then settle i (after_json r p) else p))"

definition run :: "event list \<Rightarrow> page \<Rightarrow> page" where
  "run es p = foldl (\<lambda>q e. step e q) p es"

text \<open>
  What the network does to one request: the promise of \<^verbatim>\<open>fetch\<close> never settles,
  rejects, or resolves with a response, whose \<^verbatim>\<open>json()\<close> in turn never settles,
  rejects or resolves with a value.
\<close>

datatype json_outcome = JsonPending | JsonRejects exn | JsonResolves jsval

datatype outcome = FetchPending | FetchRejects exn | FetchResolves response json_outcome

fun settlements :: "nat \<Rightarrow> outcome \<Rightarrow> event list" where
  "settlements i FetchPending = []"
| "settlements i (FetchRejects err) = [FetchSettled i (Inl err)]"
| "settlements i (FetchResolves resp JsonPending) = [FetchSettled i (Inr resp)]"
| "settlements i (FetchResolves resp (JsonRejects err)) =
     [FetchSettled i (Inr resp), JsonSettled i (Inl err)]"
| "settlements i (FetchResolves resp (JsonResolves data)) =
     [FetchSettled i (Inr resp), JsonSettled i (Inr data)]"

text \<open>One click and the settlements of the request it issues, nothing in between.\<close>

definition send :: "outcome \<Rightarrow> page \<Rightarrow> page" where
  "send net p = run (Click # settlements (next_call p) net) p"

text \<open>The outcomes on which the call waits forever.\<close>

fun hangs :: "outcome \<Rightarrow> bool" where
  "hangs FetchPending = True"
| "hangs (FetchRejects err) = False"
| "hangs (FetchResolves resp j) = (ok resp \<and> j = JsonPending)"

text \<open>The two shapes of message the script appends.\<close>

definition message :: "bool \<Rightarrow> jsval \<Rightarrow> element" where
  "message isBot text =
     Element (lit ''message '' @ sender_class isBot) None
       [Element (lit ''bubble '' @ sender_class isBot) (Some text) []]"

text \<open>
  Two notions for stating the properties: the own property of an object, and a page
  on which the user has typed some text.
\<close>

fun field :: "jsval \<Rightarrow> jsstring \<Rightarrow> jsval option" where
  "field (Obj kvs) k = map_of kvs k"
| "field v k = None"

definition initial_page :: page where
  "initial_page =
     \<lparr>messages = [], scrolledToEnd = False, input_value = [], input_focused = False,
      typing_display = lit ''none'', typing_aria_hidden = Some (lit ''true''),
      console = [], requests = [], calls = Map.empty\<rparr>"

definition typed_page :: "jsstring \<Rightarrow> page" where
  "typed_page s = run [DOMContentLoaded, Edit s] initial_page"

section \<open>Properties\<close>

subsection \<open>What each operation does to each part of the page\<close>

lemma messages_appendMessage [simp]:
  "messages (appendMessage text isBot m p) = messages p @ [message isBot text]"
  by (simp add: appendMessage_def message_def Let_def split: option.splits)

lemma other_appendMessage [simp]:
  "requests (appendMessage text isBot m p) = requests p"
  "calls (appendMessage text isBot m p) = calls p"
  "input_value (appendMessage text isBot m p) = input_value p"
  "input_focused (appendMessage text isBot m p) = input_focused p"
  "typing_display (appendMessage text isBot m p) = typing_display p"
  "typing_aria_hidden (appendMessage text isBot m p) = typing_aria_hidden p"
  by (simp_all add: appendMessage_def Let_def split: option.splits)

lemma console_appendMessage [simp]:
  "console (appendMessage text isBot None p) = console p"
  "console (appendMessage text isBot (Some mt) p) =
     console p @ [Console_log [Str (lit ''Intent:''), intent mt,
                               Str (lit ''Confidence:''), confidence mt]]"
  by (simp_all add: appendMessage_def Let_def)

lemma sendMessage_empty: "trim (input_value p) = [] \<Longrightarrow> sendMessage p = p"
  by (simp add: sendMessage_def)

lemma sendMessage_nonempty:
  assumes "trim (input_value p) \<noteq> []"
  shows "messages (sendMessage p) = messages p @ [message False (Str (trim (input_value p)))]"
    and "requests (sendMessage p) = requests p @ [chat_request (trim (input_value p))]"
    and "calls (sendMessage p) = (calls p)(next_call p \<mapsto> AwaitFetch)"
    and "console (sendMessage p) = console p"
    and "input_value (sendMessage p) = []"
    and "input_focused (sendMessage p) = True"
    and "typing_display (sendMessage p) = lit ''block''"
    and "typing_aria_hidden (sendMessage p) = Some (lit ''false'')"
  using assms
  by (simp_all add: sendMessage_def Let_def settle_def fetch_def showTyping_def)

lemma settle_Awaits:
  "messages (settle i (Awaits ph p)) = messages p"
  "console (settle i (Awaits ph p)) = console p"
  "requests (settle i (Awaits ph p)) = requests p"
  "calls (settle i (Awaits ph p)) = (calls p)(i \<mapsto> ph)"
  "typing_display (settle i (Awaits ph p)) = typing_display p"
  "typing_aria_hidden (settle i (Awaits ph p)) = typing_aria_hidden p"
  by (simp_all add: settle_def)

lemma settle_Leaves:
  "messages (settle i (Leaves p)) = messages p"
  "console (settle i (Leaves p)) = console p"
  "requests (settle i (Leaves p)) = requests p"
  "calls (settle i (Leaves p)) = (calls p)(i \<mapsto> Fulfilled)"
  "typing_display (settle i (Leaves p)) = lit ''none''"
  "typing_aria_hidden (settle i (Leaves p)) = Some (lit ''true'')"
  by (simp_all add: settle_def finally_block_def showTyping_def Let_def)

lemma settle_Throws:
  "messages (settle i (Throws err p)) = messages p @ [message True (Str network_error_text)]"
  "console (settle i (Throws err p)) =
     console p @ [Console_log [Str (lit ''Intent:''), Str (lit ''error''),
                               Str (lit ''Confidence:''), Num 0],
                  Console_error (lit ''Chat send error:'') err]"
  "requests (settle i (Throws err p)) = requests p"
  "calls (settle i (Throws err p)) = (calls p)(i \<mapsto> Fulfilled)"
  "typing_display (settle i (Throws err p)) = lit ''none''"
  "typing_aria_hidden (settle i (Throws err p)) = Some (lit ''true'')"
  by (simp_all add: settle_def finally_block_def catch_block_def showTyping_def Let_def
      error_meta_def)

subsection \<open>The reply\<close>

lemma get_prop_field:
  "data \<noteq> Null \<Longrightarrow> data \<noteq> Undefined \<Longrightarrow>
   get_prop data k = Inr (case field data k of None \<Rightarrow> Undefined | Some v \<Rightarrow> v)"
  by (cases data) (simp_all split: option.splits)

lemma bot_text_Null: "bot_text Null = Inr (Str fallback_text)"
  by (simp add: bot_text_def)

lemma reply_meta_Null: "reply_meta Null = Inl TypeError"
  by (simp add: reply_meta_def)

lemma bot_text_field:
  assumes "data \<noteq> Null" and "data \<noteq> Undefined"
  shows "bot_text data =
           Inr (case field data (lit ''response'') of
                  None \<Rightarrow> Str fallback_text
                | Some v \<Rightarrow> if truthy v then v else Str fallback_text)"
proof (cases "truthy data")
  case True
  then show ?thesis
    using assms by (simp add: bot_text_def get_prop_field split: option.splits)
next
  case False
  then have "field data (lit ''response'') = None"
    by (cases data) simp_all
  with False show ?thesis
    by (simp add: bot_text_def)
qed

lemma reply_meta_field:
  assumes "data \<noteq> Null" and "data \<noteq> Undefined"
  shows "reply_meta data =
           Inr \<lparr>intent = or_else (case field data (lit ''intent'') of
                                     None \<Rightarrow> Undefined | Some v \<Rightarrow> v) (Str (lit ''unknown'')),
                confidence = or_else (case field data (lit ''confidence'') of
                                     None \<Rightarrow> Undefined | Some v \<Rightarrow> v) (Num 0)\<rparr>"
  using assms by (simp add: reply_meta_def get_prop_field)

subsection \<open>One send, piece by piece\<close>

lemma send_FetchPending: "send FetchPending p = sendMessage p"
  by (simp add: send_def run_def step_def onClick_def)

lemma send_FetchRejects:
  assumes "trim (input_value p) \<noteq> []"
  shows "send (FetchRejects err) p = settle (next_call p) (Throws err (sendMessage p))"
  using assms
  by (simp add: send_def run_def step_def onClick_def sendMessage_nonempty after_fetch_def)

lemma send_not_ok:
  assumes "trim (input_value p) \<noteq> []" and "\<not> ok resp"
  shows "send (FetchResolves resp j) p =
           settle (next_call p)
             (Leaves (appendMessage (Str (server_error_text (status resp))) True
                        (Some error_meta) (sendMessage p)))"
  using assms
  by (cases j)
     (simp_all add: send_def run_def step_def onClick_def sendMessage_nonempty after_fetch_def
        settle_Leaves)

lemma send_ok_JsonPending:
  assumes "trim (input_value p) \<noteq> []" and "ok resp"
  shows "send (FetchResolves resp JsonPending) p =
           settle (next_call p) (Awaits AwaitJson (sendMessage p))"
  using assms
  by (simp add: send_def run_def step_def onClick_def sendMessage_nonempty after_fetch_def)

lemma send_ok_JsonRejects:
  assumes "trim (input_value p) \<noteq> []" and "ok resp"
  shows "send (FetchResolves resp (JsonRejects err)) p =
           settle (next_call p)
             (Throws err (settle (next_call p) (Awaits AwaitJson (sendMessage p))))"
  using assms
  by (simp add: send_def run_def step_def onClick_def sendMessage_nonempty after_fetch_def
      after_json_def settle_Awaits)

lemma send_ok_JsonResolves:
  assumes "trim (input_value p) \<noteq> []" and "ok resp"
  shows "send (FetchResolves resp (JsonResolves data)) p =
           settle (next_call p)
             (after_json (Inr data) (settle (next_call p) (Awaits AwaitJson (sendMessage p))))"
  using assms
  by (simp add: send_def run_def step_def onClick_def sendMessage_nonempty after_fetch_def
      settle_Awaits)

lemma after_json_Null: "after_json (Inr Null) p = Throws TypeError p"
  by (simp add: after_json_def bot_text_Null reply_meta_Null)

lemma after_json_Undefined: "after_json (Inr Undefined) p = Throws TypeError p"
  by (simp add: after_json_def bot_text_def reply_meta_def)

lemma after_json_value:
  assumes "data \<noteq> Null" and "data \<noteq> Undefined"
  shows "after_json (Inr data) p =
           Leaves (appendMessage
                     (case field data (lit ''response'') of
                        None \<Rightarrow> Str fallback_text
                      | Some v \<Rightarrow> if truthy v then v else Str fallback_text)
                     True
                     (Some \<lparr>intent = or_else (case field data (lit ''intent'') of
                                     None \<Rightarrow> Undefined | Some v \<Rightarrow> v) (Str (lit ''unknown'')),
                            confidence = or_else (case field data (lit ''confidence'') of
                                     None \<Rightarrow> Undefined | Some v \<Rightarrow> v) (Num 0)\<rparr>)
                     p)"
  using assms by (simp add: after_json_def bot_text_field reply_meta_field)

subsection \<open>Concrete pages and replies\<close>

lemma trim_hi: "trim (lit '' hi '') = lit ''hi''"
  by (simp add: trim_def lit_def is_white_space_def white_space_def)

lemma trim_blank: "trim [0x0020, 0x0009, 0x3000] = []"
  by (simp add: trim_def is_white_space_def white_space_def)

lemma input_value_typed_page: "input_value (typed_page s) = s"
  by (simp add: typed_page_def run_def step_def)

lemma messages_typed_page: "messages (typed_page s) = [message True (Str greeting_text)]"
  by (simp add: typed_page_def run_def step_def onDOMContentLoaded_def initial_page_def)



lemma requests_typed_page: "requests (typed_page s) = []"
  by (simp add: typed_page_def run_def step_def onDOMContentLoaded_def initial_page_def)



subsection \<open>A body that is null\<close>

text \<open>
  Line 57 guards against \<^verbatim>\<open>data\<close> being \<^verbatim>\<open>null\<close>; line 58 reads
  \<^verbatim>\<open>data.intent\<close> all the same, which throws, and the \<^verbatim>\<open>catch\<close> block reports
  a network error although the server answered.
\<close>

lemma null_body_shows_network_error:
  assumes "trim (input_value p) \<noteq> []" and "ok resp"
  shows "messages (send (FetchResolves resp (JsonResolves Null)) p) =
           messages p @
           [message False (Str (trim (input_value p))),
            message True (Str network_error_text)]"
  using assms
  by (simp add: send_ok_JsonResolves after_json_Null settle_Throws settle_Awaits
      sendMessage_nonempty)

subsection \<open>Every event extends the message list\<close>

lemma messages_after_fetch:
  "prefix (messages p) (messages (settle i (after_fetch r p)))"
  by (cases r) (simp_all add: after_fetch_def settle_Throws settle_Leaves settle_Awaits)

lemma messages_after_json:
  "prefix (messages p) (messages (settle i (after_json r p)))"
  by (cases r)
     (simp_all add: after_json_def settle_Throws settle_Leaves split: sum.splits)

lemma messages_sendMessage: "prefix (messages p) (messages (sendMessage p))"
  by (cases "trim (input_value p) = []") (simp_all add: sendMessage_empty sendMessage_nonempty)

lemma messages_step: "prefix (messages p) (messages (step e p))"
  by (cases e)
     (simp_all add: step_def onDOMContentLoaded_def onClick_def onKeydown_def
        messages_sendMessage messages_after_fetch messages_after_json)

subsection \<open>The step on which a call returns\<close>

text \<open>
  Sends may overlap. Whatever else is in flight, the step on which a call of
  \<^verbatim>\<open>sendMessage\<close> returns appends exactly one bot message and leaves the typing
  indicator hidden.
\<close>

lemma calls_sendMessage_not_Fulfilled:
  "calls (sendMessage p) i = Some Fulfilled \<Longrightarrow> calls p i = Some Fulfilled"
  by (cases "trim (input_value p) = []")
     (auto simp add: sendMessage_empty sendMessage_nonempty split: if_splits)

lemma returning_after_fetch:
  assumes "calls p i \<noteq> Some Fulfilled" and "calls (settle j (after_fetch r p)) i = Some Fulfilled"
  shows "typing_display (settle j (after_fetch r p)) = lit ''none'' \<and>
         typing_aria_hidden (settle j (after_fetch r p)) = Some (lit ''true'') \<and>
         (\<exists>b. messages (settle j (after_fetch r p)) = messages p @ [message True b])"
  using assms
  by (cases r)
     (auto simp add: after_fetch_def settle_Throws settle_Leaves settle_Awaits split: if_splits)

lemma returning_after_json:
  assumes "calls p i \<noteq> Some Fulfilled" and "calls (settle j (after_json r p)) i = Some Fulfilled"
  shows "typing_display (settle j (after_json r p)) = lit ''none'' \<and>
         typing_aria_hidden (settle j (after_json r p)) = Some (lit ''true'') \<and>
         (\<exists>b. messages (settle j (after_json r p)) = messages p @ [message True b])"
  using assms
  by (cases r)
     (auto simp add: after_json_def settle_Throws settle_Leaves split: sum.splits)

lemma returning_step:
  assumes "calls p i \<noteq> Some Fulfilled" and "calls (step e p) i = Some Fulfilled"
  shows "typing_display (step e p) = lit ''none'' \<and>
         typing_aria_hidden (step e p) = Some (lit ''true'') \<and>
         (\<exists>b. messages (step e p) = messages p @ [message True b])"
proof (cases e)
  case DOMContentLoaded
  with assms show ?thesis
    by (simp add: step_def onDOMContentLoaded_def split: if_splits)
next
  case (Edit s)
  with assms show ?thesis by (simp add: step_def)
next
  case Click
  with assms show ?thesis
    using calls_sendMessage_not_Fulfilled [of p i] by (simp add: step_def onClick_def)
next
  case (Keydown key shiftKey)
  with assms show ?thesis
    using calls_sendMessage_not_Fulfilled [of p i]
    by (simp add: step_def onKeydown_def split: if_splits)
next
  case (FetchSettled j r)
  with assms show ?thesis
    using returning_after_fetch [of p i j r] by (simp add: step_def split: if_splits)
next
  case (JsonSettled j r)
  with assms show ?thesis
    using returning_after_json [of p i j r] by (simp add: step_def split: if_splits)
qed

section \<open>The claims\<close>




text \<open>
  C2. A submit whose input is empty after trimming changes nothing: no message is
  appended and no request is issued, whether the button or the Enter key submits.
\<close>

theorem empty_submit_is_noop:
  assumes "trim (input_value p) = []"
  shows "sendMessage p = p \<and>
         messages (sendMessage p) = messages p \<and>
         requests (sendMessage p) = requests p \<and>
         step Click p = p \<and>
         step (Keydown (lit ''Enter'') False) p = p"
  using assms by (simp add: sendMessage_empty step_def onClick_def onKeydown_def)

theorem empty_submit_is_noop_witness:
  "trim (input_value (typed_page [0x0020, 0x0009, 0x3000])) = [] \<and>
   messages (sendMessage (typed_page [0x0020, 0x0009, 0x3000])) =
     [message True (Str greeting_text)] \<and>
   requests (sendMessage (typed_page [0x0020, 0x0009, 0x3000])) =
     requests (typed_page [0x0020, 0x0009, 0x3000])"
proof -
  have h: "trim (input_value (typed_page [0x0020, 0x0009, 0x3000])) = []"
    by (simp add: input_value_typed_page trim_blank)
  show ?thesis
    using h empty_submit_is_noop [OF h]
    by (simp add: messages_typed_page)
qed








text \<open>
  C6. A send of non-empty input shows the typing indicator when it starts, and on
  every path on which the call returns (reply, server error, network failure, a body
  that does not parse) the indicator is hidden again.
\<close>

theorem typing_indicator_shown_then_hidden:
  assumes "trim (input_value p) \<noteq> []"
  shows "typing_display (sendMessage p) = lit ''block'' \<and>
         typing_aria_hidden (sendMessage p) = Some (lit ''false'') \<and>
         (\<not> hangs net \<longrightarrow>
            typing_display (send net p) = lit ''none'' \<and>
            typing_aria_hidden (send net p) = Some (lit ''true'') \<and>
            calls (send net p) (next_call p) = Some Fulfilled)"
proof (cases net)
  case FetchPending
  with assms show ?thesis by (simp add: sendMessage_nonempty)
next
  case (FetchRejects err)
  with assms show ?thesis
    by (simp add: send_FetchRejects settle_Throws sendMessage_nonempty)
next
  case (FetchResolves resp j)
  show ?thesis
  proof (cases "ok resp")
    case False
    with assms FetchResolves show ?thesis
      by (simp add: send_not_ok settle_Leaves sendMessage_nonempty)
  next
    case True
    show ?thesis
    proof (cases j)
      case JsonPending
      with assms FetchResolves True show ?thesis by (simp add: sendMessage_nonempty)
    next
      case (JsonRejects err)
      with assms FetchResolves True show ?thesis
        by (simp add: send_ok_JsonRejects settle_Throws settle_Awaits sendMessage_nonempty)
    next
      case (JsonResolves data)
      show ?thesis
      proof (cases "data = Null \<or> data = Undefined")
        case True
        with assms FetchResolves \<open>ok resp\<close> JsonResolves show ?thesis
          by (auto simp add: send_ok_JsonResolves after_json_Null after_json_Undefined
              settle_Throws settle_Awaits sendMessage_nonempty)
      next
        case False
        with assms FetchResolves \<open>ok resp\<close> JsonResolves show ?thesis
          by (simp add: send_ok_JsonResolves after_json_value
              settle_Leaves settle_Awaits sendMessage_nonempty)
      qed
    qed
  qed
qed

theorem typing_indicator_shown_then_hidden_witness:
  "trim (input_value (typed_page (lit '' hi ''))) \<noteq> [] \<and>
   \<not> hangs (FetchResolves \<lparr>status = 200\<rparr> (JsonRejects SyntaxError)) \<and>
   typing_display (sendMessage (typed_page (lit '' hi ''))) = lit ''block'' \<and>
   typing_display (send (FetchResolves \<lparr>status = 200\<rparr> (JsonRejects SyntaxError))
                     (typed_page (lit '' hi ''))) = lit ''none''"
proof -
  have h1: "trim (input_value (typed_page (lit '' hi ''))) \<noteq> []"
    by (simp add: input_value_typed_page trim_hi) (simp add: lit_def)
  have h2: "\<not> hangs (FetchResolves \<lparr>status = 200\<rparr> (JsonRejects SyntaxError))"
    by simp
  show ?thesis
    using h1 h2
      typing_indicator_shown_then_hidden [OF h1,
        of "FetchResolves \<lparr>status = 200\<rparr> (JsonRejects SyntaxError)"]
    by simp
qed

text \<open>
  C7. When the document has loaded and the message list is empty, exactly one greeting
  message is appended, logged with intent \<^verbatim>\<open>greeting\<close> and confidence 1; when the
  list already holds a message, nothing is appended and the page stays as it is.
\<close>

theorem greeting_on_empty_view_only:
  "(messages p = [] \<longrightarrow>
      messages (onDOMContentLoaded p) =
        [message True (Str (lit ''Hi, I'm the Vibeathon bot! You can ask me about joining or registration, event dates and costs, collaborations, social media, GitHub, contact info, current projects, or even provide feedback.''))] \<and>
      console (onDOMContentLoaded p) =
        console p @
        [Console_log [Str (lit ''Intent:''), Str (lit ''greeting''),
                      Str (lit ''Confidence:''), Num 1]]) \<and>
   (messages p \<noteq> [] \<longrightarrow>
      onDOMContentLoaded p = p \<and> messages (onDOMContentLoaded p) = messages p) \<and>
   step DOMContentLoaded p = onDOMContentLoaded p"
  by (simp add: onDOMContentLoaded_def greeting_text_def greeting_meta_def step_def)

theorem greeting_on_empty_view_only_witness:
  "messages initial_page = [] \<and>
   messages (onDOMContentLoaded initial_page) = [message True (Str greeting_text)] \<and>
   messages (typed_page []) \<noteq> [] \<and>
   messages (onDOMContentLoaded (typed_page [])) = [message True (Str greeting_text)]"
proof -
  have h1: "messages initial_page = []"
    by (simp add: initial_page_def)
  have h2: "messages (typed_page []) \<noteq> []"
    by (simp add: messages_typed_page)
  show ?thesis
    using h1 h2 greeting_on_empty_view_only [of initial_page]
      greeting_on_empty_view_only [of "typed_page []"]
    by (simp add: messages_typed_page greeting_text_def)
qed

text \<open>
  C8. A send of non-empty input issues exactly one request, whatever the network then
  does: a POST to \<^verbatim>\<open>/chat\<close> whose body is the JSON text of an object with the one
  field \<^verbatim>\<open>message\<close>, the trimmed input.
\<close>

theorem one_post_to_chat:
  assumes "trim (input_value p) \<noteq> []"
  shows "requests (send net p) =
           requests p @
           [\<lparr>url = lit ''/chat'',
             method_of = lit ''POST'',
             headers = [(lit ''Content-Type'', lit ''application/json'')],
             body = JSON_stringify (Obj [(lit ''message'', Str (trim (input_value p)))])\<rparr>]"
proof (cases net)
  case FetchPending
  with assms show ?thesis
    by (simp add: send_FetchPending sendMessage_nonempty chat_request_def)
next
  case (FetchRejects err)
  with assms show ?thesis
    by (simp add: send_FetchRejects settle_Throws sendMessage_nonempty chat_request_def)
next
  case (FetchResolves resp j)
  show ?thesis
  proof (cases "ok resp")
    case False
    with assms FetchResolves show ?thesis
      by (simp add: send_not_ok settle_Leaves sendMessage_nonempty chat_request_def)
  next
    case True
    show ?thesis
    proof (cases j)
      case JsonPending
      with assms FetchResolves True show ?thesis
        by (simp add: send_ok_JsonPending settle_Awaits sendMessage_nonempty chat_request_def)
    next
      case (JsonRejects err)
      with assms FetchResolves True show ?thesis
        by (simp add: send_ok_JsonRejects settle_Throws settle_Awaits sendMessage_nonempty
            chat_request_def)
    next
      case (JsonResolves data)
      show ?thesis
      proof (cases "data = Null \<or> data = Undefined")
        case True
        with assms FetchResolves \<open>ok resp\<close> JsonResolves show ?thesis
          by (auto simp add: send_ok_JsonResolves after_json_Null after_json_Undefined
              settle_Throws settle_Awaits sendMessage_nonempty chat_request_def)
      next
        case False
        with assms FetchResolves \<open>ok resp\<close> JsonResolves show ?thesis
          by (simp add: send_ok_JsonResolves after_json_value
              settle_Leaves settle_Awaits sendMessage_nonempty chat_request_def)
      qed
    qed
  qed
qed

theorem one_post_to_chat_witness:
  "trim (input_value (typed_page (lit '' hi ''))) \<noteq> [] \<and>
   requests (send (FetchRejects TypeError) (typed_page (lit '' hi ''))) =
     [\<lparr>url = lit ''/chat'',
       method_of = lit ''POST'',
       headers = [(lit ''Content-Type'', lit ''application/json'')],
       body = JSON_stringify (Obj [(lit ''message'', Str (lit ''hi''))])\<rparr>]"
proof -
  have h1: "trim (input_value (typed_page (lit '' hi ''))) \<noteq> []"
    by (simp add: input_value_typed_page trim_hi) (simp add: lit_def)
  show ?thesis
    using h1 one_post_to_chat [OF h1, of "FetchRejects TypeError"]
    by (simp add: input_value_typed_page trim_hi requests_typed_page)
qed

text \<open>
  C9. The message list is append-only: after any sequence of events (loading, editing,
  clicks, key presses, settlements of requests in any order) the list before is a
  prefix of the list after, so no message is changed, removed or moved.
\<close>

theorem messages_append_only: "prefix (messages p) (messages (run es p))"
proof (induction es arbitrary: p)
  case Nil
  show ?case by (simp add: run_def)
next
  case (Cons e es)
  have "prefix (messages p) (messages (step e p))"
    by (rule messages_step)
  also have "prefix (messages (step e p)) (messages (run es (step e p)))"
    by (rule Cons.IH)
  finally show ?case by (simp add: run_def)
qed



end
